theory Spec2Isabelle
  imports Main "HOL-Library.Sublist"
begin

section \<open>Portfolio backend: catalog reads, free-text search and the contact pipeline\<close>

text \<open>
  A shallow embedding of \<^verbatim>\<open>main.py\<close>. A Python \<^verbatim>\<open>str\<close> is an Isabelle
  \<^typ>\<open>string\<close>, one \<^typ>\<open>char\<close> per code point, so the model covers text whose
  code points are below 256 (all of the catalog is ASCII) and \<^const>\<open>length\<close> counts
  what Python's \<^verbatim>\<open>len\<close> counts. The module's global lists are fields of a record
  that every handler receives; the file system, the clock, the UUID generator and the
  mail relay are inputs of the handlers that use them.
\<close>

subsection \<open>Strings\<close>

text \<open>
  \<^verbatim>\<open>str.lower()\<close> on code points below 256: the ASCII capitals and the Latin-1
  capitals (all of 192..222 but the multiplication sign 215) move up by 32.
\<close>

definition lower_char :: "char \<Rightarrow> char" where
  "lower_char c =
     (let n = (of_char c :: nat)
      in if (65 \<le> n \<and> n \<le> 90) \<or> (192 \<le> n \<and> n \<le> 222 \<and> n \<noteq> 215)
         then char_of (n + 32) else c)"

definition lower :: "string \<Rightarrow> string" where
  "lower s = map lower_char s"

text \<open>\<^verbatim>\<open>sub in s\<close> on strings: \<^verbatim>\<open>sub\<close> occurs in \<^verbatim>\<open>s\<close> as a contiguous block.\<close>

fun str_in :: "string \<Rightarrow> string \<Rightarrow> bool" where
  "str_in sub [] = (sub = [])"
| "str_in sub (c # cs) = (prefix sub (c # cs) \<or> str_in sub cs)"

text \<open>\<^verbatim>\<open>str(n)\<close> for an integer, as the f-string of the skill description needs it.\<close>

definition digit_char :: "nat \<Rightarrow> char" where
  "digit_char d = char_of (48 + d)"

fun str_nat :: "nat \<Rightarrow> string" where
  "str_nat n = (if n < 10 then [digit_char n] else str_nat (n div 10) @ [digit_char (n mod 10)])"

declare str_nat.simps [simp del]

definition str_int :: "int \<Rightarrow> string" where
  "str_int i = (if i < 0 then CHR ''-'' # str_nat (nat (- i)) else str_nat (nat i))"

subsection \<open>Clock readings\<close>

text \<open>A naive \<^verbatim>\<open>datetime\<close>, as \<^verbatim>\<open>datetime.now()\<close> returns it.\<close>

record datetime =
  year :: nat
  month :: nat
  day :: nat
  hour :: nat
  minute :: nat
  second :: nat
  microsecond :: nat

subsection \<open>The catalog\<close>

text \<open>
  The dictionaries of the catalog have fixed keys; each kind is a record, and the field
  for the key \<^verbatim>\<open>"id"\<close> of a project is \<open>p_id\<close>, of an experience \<open>e_id\<close>, and so
  on (\<open>s_\<close> for a skill).
\<close>

record Project =
  p_id :: string
  p_title :: string
  p_category :: string
  p_description :: string
  p_tech :: "string list"
  p_github :: string
  p_demo :: string
  p_featured :: bool
  p_created_at :: datetime

record Skill =
  s_name :: string
  s_level :: int
  s_category :: string

record Experience =
  e_id :: string
  e_title :: string
  e_company :: string
  e_location :: string
  e_period :: string
  e_description :: string
  e_type :: string
  e_achievements :: "string list"

record globals =
  PROJECTS_DATA :: "Project list"
  SKILLS_DATA :: "Skill list"
  EXPERIENCES_DATA :: "Experience list"

text \<open>
  The lists as the module defines them at import. Every project entry reads the clock
  once; \<open>clock i\<close> is the reading of entry \<open>i\<close>.
\<close>

definition PROJECTS_DATA_init :: "(nat \<Rightarrow> datetime) \<Rightarrow> Project list" where
  "PROJECTS_DATA_init clock = [
  \<lparr>p_id = ''1'',
    p_title = ''Amazon Clone'',
    p_category = ''E-commerce Platform'',
    p_description = ''Full-featured e-commerce platform with shopping cart, payment integration, and user authentication. Built with modern JavaScript and responsive design principles.'',
    p_tech = [''JavaScript'', ''HTML5'', ''CSS3'', ''LocalStorage'', ''Responsive Design''],
    p_github = ''https://github.com/ArunDev-07'',
    p_demo = ''https://arun-amazon-clone.netlify.app'',
    p_featured = True,
    p_created_at = clock 0\<rparr>,
  \<lparr>p_id = ''2'',
    p_title = ''Movie Discovery App'',
    p_category = ''Entertainment Platform'',
    p_description = ''Interactive movie discovery application with TMDB API integration, search functionality, and detailed movie information with trailers.'',
    p_tech = [''React JS'', ''TMDB API'', ''Tailwind CSS'', ''React Router'', ''Axios''],
    p_github = ''https://github.com/ArunDev-07/Movie-App.git'',
    p_demo = ''https://arun-movie-app.netlify.app'',
    p_featured = True,
    p_created_at = clock 1\<rparr>,
  \<lparr>p_id = ''3'',
    p_title = ''Weather Forecast App'',
    p_category = ''Weather Service'',
    p_description = ''Real-time weather application with location-based forecasting, 5-day predictions, and interactive weather maps.'',
    p_tech = [''React JS'', ''OpenWeather API'', ''Geolocation API'', ''Chart.js''],
    p_github = ''https://github.com/ArunDev-07/Weather-App'',
    p_demo = ''https://arun-weather-app.netlify.app'',
    p_featured = False,
    p_created_at = clock 2\<rparr>,
  \<lparr>p_id = ''4'',
    p_title = ''Currency Converter'',
    p_category = ''Financial Tool'',
    p_description = ''Real-time currency conversion application with historical data, multiple currencies, and exchange rate trends.'',
    p_tech = [''React JS'', ''Exchange Rate API'', ''Chart.js'', ''Material-UI''],
    p_github = ''https://github.com/ArunDev-07/Currency-Converter'',
    p_demo = ''https://arun-currency-converter.netlify.app'',
    p_featured = False,
    p_created_at = clock 3\<rparr>,
  \<lparr>p_id = ''5'',
    p_title = ''CRUD Task Manager'',
    p_category = ''Data Management'',
    p_description = ''Complete task management application with CRUD operations, filtering, sorting, and data persistence.'',
    p_tech = [''React JS'', ''Context API'', ''LocalStorage'', ''React Hooks''],
    p_github = ''https://github.com/ArunDev-07/CRUD-App'',
    p_demo = ''https://arun-task-manager.netlify.app'',
    p_featured = False,
    p_created_at = clock 4\<rparr>]"

definition SKILLS_DATA_init :: "Skill list" where
  "SKILLS_DATA_init = [
  \<lparr>s_name = ''React JS'', s_level = 90, s_category = ''Frontend''\<rparr>,
  \<lparr>s_name = ''JavaScript'', s_level = 85, s_category = ''Frontend''\<rparr>,
  \<lparr>s_name = ''HTML'', s_level = 95, s_category = ''Frontend''\<rparr>,
  \<lparr>s_name = ''CSS'', s_level = 92, s_category = ''Frontend''\<rparr>,
  \<lparr>s_name = ''TypeScript'', s_level = 75, s_category = ''Frontend''\<rparr>,
  \<lparr>s_name = ''Tailwind CSS'', s_level = 88, s_category = ''Frontend''\<rparr>,
  \<lparr>s_name = ''Python'', s_level = 82, s_category = ''Backend''\<rparr>,
  \<lparr>s_name = ''FastAPI'', s_level = 78, s_category = ''Backend''\<rparr>,
  \<lparr>s_name = ''MySQL'', s_level = 80, s_category = ''Database''\<rparr>,
  \<lparr>s_name = ''Git/GitHub'', s_level = 85, s_category = ''Tools''\<rparr>]"

definition EXPERIENCES_DATA_init :: "Experience list" where
  "EXPERIENCES_DATA_init = [
  \<lparr>e_id = ''1'',
    e_title = ''Full Stack Developer Intern'',
    e_company = ''VDart'',
    e_location = ''Trichy, Tamil Nadu'',
    e_period = ''2024 - Present'',
    e_description = ''Working as a Full Stack Developer, building scalable web applications using React.js and modern web technologies. Collaborating with cross-functional teams to deliver high-quality solutions.'',
    e_type = ''internship'',
    e_achievements = [''Developed responsive web applications using React JS'',
       ''Implemented RESTful APIs with Python backend'',
       ''Collaborated with design team for UI/UX improvements'',
       ''Participated in code reviews and agile development'']\<rparr>,
  \<lparr>e_id = ''2'',
    e_title = ''Web Development Intern'',
    e_company = ''Learnflu'',
    e_location = ''Online'',
    e_period = ''2024'',
    e_description = ''Worked with React JS and API integrations. Assisted in developing cross-platform websites and gained hands-on experience with modern web development practices.'',
    e_type = ''internship'',
    e_achievements = [''Built cross-platform websites using React JS'',
       ''Integrated third-party APIs for enhanced functionality'',
       ''Optimized website performance and user experience'',
       ''Collaborated with remote development team'']\<rparr>,
  \<lparr>e_id = ''3'',
    e_title = ''Generative AI Workshop'',
    e_company = ''Tech Conference'',
    e_location = ''Bangalore'',
    e_period = ''2025'',
    e_description = ''Participated in intensive workshop on Generative AI, learning to create chatbots using cutting-edge AI technologies and machine learning frameworks.'',
    e_type = ''workshop'',
    e_achievements = [''Learned chatbot development using Generative AI'',
       ''Implemented AI-powered conversation systems'',
       ''Studied machine learning frameworks'',
       ''Networked with AI professionals'']\<rparr>]"

definition globals_init :: "(nat \<Rightarrow> datetime) \<Rightarrow> globals" where
  "globals_init clock =
     \<lparr>PROJECTS_DATA = PROJECTS_DATA_init clock,
      SKILLS_DATA = SKILLS_DATA_init,
      EXPERIENCES_DATA = EXPERIENCES_DATA_init\<rparr>"

subsection \<open>Free-text search\<close>

record search_hit =
  hit_type :: string
  hit_title :: string
  hit_description :: string
  hit_url :: string

record search_response =
  search_query :: string
  search_results :: "search_hit list"

text \<open>The two loops of \<^verbatim>\<open>search_content\<close>; \<open>results\<close> is the list they append to.\<close>

fun search_projects :: "string \<Rightarrow> Project list \<Rightarrow> search_hit list \<Rightarrow> search_hit list" where
  "search_projects q [] results = results"
| "search_projects q (project # rest) results =
     search_projects q rest
       (if str_in (lower q) (lower (p_title project)) \<or>
           str_in (lower q) (lower (p_description project)) \<or>
           list_ex (\<lambda>tech. str_in (lower q) (lower tech)) (p_tech project)
        then results @
          [\<lparr>hit_type = ''project'',
            hit_title = p_title project,
            hit_description = p_description project,
            hit_url = ''/api/projects/'' @ p_id project\<rparr>]
        else results)"

fun search_skills :: "string \<Rightarrow> Skill list \<Rightarrow> search_hit list \<Rightarrow> search_hit list" where
  "search_skills q [] results = results"
| "search_skills q (skill # rest) results =
     search_skills q rest
       (if str_in (lower q) (lower (s_name skill))
        then results @
          [\<lparr>hit_type = ''skill'',
            hit_title = s_name skill,
            hit_description = s_category skill @ '' - '' @ str_int (s_level skill) @ ''%'',
            hit_url = ''/api/skills''\<rparr>]
        else results)"

definition search_content :: "globals \<Rightarrow> string \<Rightarrow> string option \<Rightarrow> search_response" where
  "search_content g q category =
     \<lparr>search_query = q,
      search_results = search_skills q (SKILLS_DATA g) (search_projects q (PROJECTS_DATA g) [])\<rparr>"

text \<open>
  The specification's reading of a match: the query is a case-insensitive substring of a
  text when the lowered query lies between a prefix and a suffix of the lowered text.
\<close>

definition substring :: "string \<Rightarrow> string \<Rightarrow> bool" where
  "substring sub s \<longleftrightarrow> (\<exists>pre post. s = pre @ sub @ post)"

definition ci_substring :: "string \<Rightarrow> string \<Rightarrow> bool" where
  "ci_substring q s \<longleftrightarrow> substring (lower q) (lower s)"

text \<open>
  \<^verbatim>\<open>str.isspace\<close> on one code point below 256: the ASCII controls 9..13 and 28..31,
  the space, NEL (133) and the no-break space (160). A query is whitespace-only when
  each of its characters is one of these.
\<close>

definition isspace :: "char \<Rightarrow> bool" where
  "isspace c =
     (let n = (of_char c :: nat)
      in (9 \<le> n \<and> n \<le> 13) \<or> (28 \<le> n \<and> n \<le> 32) \<or> n = 133 \<or> n = 160)"

text \<open>
  What the specification asks of a hit: its type, the title, a description and the URL
  of the resource that tells more.
\<close>

definition project_hit :: "Project \<Rightarrow> search_hit" where
  "project_hit p =
     \<lparr>hit_type = ''project'', hit_title = p_title p,
      hit_description = p_description p,
      hit_url = ''/api/projects/'' @ p_id p\<rparr>"

definition skill_hit :: "Skill \<Rightarrow> search_hit" where
  "skill_hit s =
     \<lparr>hit_type = ''skill'', hit_title = s_name s,
      hit_description = s_category s @ '' - '' @ str_int (s_level s) @ ''%'',
      hit_url = ''/api/skills''\<rparr>"

subsection \<open>Catalog reads\<close>

datatype HTTPException = HTTPException (status_code: nat) (detail: string)

text \<open>
  \<^verbatim>\<open>get_projects\<close> tests \<^verbatim>\<open>featured is not None\<close>; \<^verbatim>\<open>get_skills\<close> and
  \<^verbatim>\<open>get_experiences\<close> test the truth value of their parameter, and the empty string
  is false.
\<close>

definition get_projects :: "globals \<Rightarrow> bool option \<Rightarrow> Project list" where
  "get_projects g featured =
     (let projects = PROJECTS_DATA g
      in case featured of
           None \<Rightarrow> projects
         | Some f \<Rightarrow> filter (\<lambda>p. p_featured p = f) projects)"

definition get_skills :: "globals \<Rightarrow> string option \<Rightarrow> Skill list" where
  "get_skills g category =
     (let skills = SKILLS_DATA g
      in case category of
           None \<Rightarrow> skills
         | Some c \<Rightarrow>
             if c \<noteq> [] then filter (\<lambda>s. lower (s_category s) = lower c) skills
             else skills)"

definition get_experiences :: "globals \<Rightarrow> string option \<Rightarrow> Experience list" where
  "get_experiences g type =
     (let experiences = EXPERIENCES_DATA g
      in case type of
           None \<Rightarrow> experiences
         | Some t \<Rightarrow>
             if t \<noteq> [] then filter (\<lambda>e. lower (e_type e) = lower t) experiences
             else experiences)"

text \<open>
  \<^verbatim>\<open>next((p for p in ... if p["id"] == project_id), None)\<close> is the first entry with
  that id. The test \<^verbatim>\<open>not project\<close> is true of \<^verbatim>\<open>None\<close> only: an entry always has
  keys.
\<close>

definition get_project :: "globals \<Rightarrow> string \<Rightarrow> HTTPException + Project" where
  "get_project g project_id =
     (case find (\<lambda>p. p_id p = project_id) (PROJECTS_DATA g) of
        None \<Rightarrow> Inl (HTTPException 404 ''Project not found'')
      | Some project \<Rightarrow> Inr project)"

definition get_experience :: "globals \<Rightarrow> string \<Rightarrow> HTTPException + Experience" where
  "get_experience g experience_id =
     (case find (\<lambda>e. e_id e = experience_id) (EXPERIENCES_DATA g) of
        None \<Rightarrow> Inl (HTTPException 404 ''Experience not found'')
      | Some experience \<Rightarrow> Inr experience)"

subsection \<open>ISO-8601 timestamps\<close>

text \<open>\<^verbatim>\<open>"%0wd" % n\<close>: decimal digits, padded with zeros on the left to width \<open>w\<close>.\<close>

definition zpad :: "nat \<Rightarrow> nat \<Rightarrow> string" where
  "zpad w n = replicate (w - length (str_nat n)) (CHR ''0'') @ str_nat n"

text \<open>
  \<^verbatim>\<open>datetime.isoformat()\<close> of a naive datetime: \<^verbatim>\<open>YYYY-MM-DDTHH:MM:SS\<close>, followed
  by \<^verbatim>\<open>.ffffff\<close> when the microsecond is not zero.
\<close>

definition isoformat :: "datetime \<Rightarrow> string" where
  "isoformat t =
     zpad 4 (year t) @ ''-'' @ zpad 2 (month t) @ ''-'' @ zpad 2 (day t) @ ''T'' @
     zpad 2 (hour t) @ '':'' @ zpad 2 (minute t) @ '':'' @ zpad 2 (second t) @
     (if microsecond t \<noteq> 0 then ''.'' @ zpad 6 (microsecond t) else [])"

text \<open>The range of a \<^verbatim>\<open>datetime\<close>: the proleptic Gregorian calendar, years 1 to 9999.\<close>

definition is_leap :: "nat \<Rightarrow> bool" where
  "is_leap y \<longleftrightarrow> y mod 4 = 0 \<and> (y mod 100 \<noteq> 0 \<or> y mod 400 = 0)"

definition days_in_month :: "nat \<Rightarrow> nat \<Rightarrow> nat" where
  "days_in_month y m =
     (if m = 2 then (if is_leap y then 29 else 28)
      else if m = 4 \<or> m = 6 \<or> m = 9 \<or> m = 11 then 30 else 31)"

definition valid_datetime :: "datetime \<Rightarrow> bool" where
  "valid_datetime t \<longleftrightarrow>
     1 \<le> year t \<and> year t \<le> 9999 \<and> 1 \<le> month t \<and> month t \<le> 12 \<and>
     1 \<le> day t \<and> day t \<le> days_in_month (year t) (month t) \<and>
     hour t < 24 \<and> minute t < 60 \<and> second t < 60 \<and> microsecond t < 1000000"

text \<open>
  Reading a timestamp back, for the two shapes \<^const>\<open>isoformat\<close> writes: every
  field is a run of decimal digits at its fixed place, the separators are in place, and
  the fields are in range.
\<close>

definition digit_val :: "char \<Rightarrow> nat option" where
  "digit_val c =
     (let n = (of_char c :: nat) in if 48 \<le> n \<and> n \<le> 57 then Some (n - 48) else None)"

fun number_from :: "nat \<Rightarrow> string \<Rightarrow> nat option" where
  "number_from acc [] = Some acc"
| "number_from acc (c # cs) =
     (case digit_val c of None \<Rightarrow> None | Some d \<Rightarrow> number_from (10 * acc + d) cs)"

definition number :: "string \<Rightarrow> nat option" where
  "number s = (if s = [] then None else number_from 0 s)"

definition digits_at :: "nat \<Rightarrow> nat \<Rightarrow> string \<Rightarrow> nat option" where
  "digits_at start len s = number (take len (drop start s))"

definition fromisoformat :: "string \<Rightarrow> datetime option" where
  "fromisoformat s =
     (if (length s = 19 \<or> length s = 26 \<and> s ! 19 = CHR ''.'') \<and>
         s ! 4 = CHR ''-'' \<and> s ! 7 = CHR ''-'' \<and> s ! 10 = CHR ''T'' \<and>
         s ! 13 = CHR '':'' \<and> s ! 16 = CHR '':''
      then
        (case (digits_at 0 4 s, digits_at 5 2 s, digits_at 8 2 s, digits_at 11 2 s, digits_at 14 2 s,
               digits_at 17 2 s, if length s = 19 then Some 0 else digits_at 20 6 s) of
           (Some y, Some mo, Some d, Some h, Some mi, Some sec, Some us) \<Rightarrow>
             (let t = \<lparr>year = y, month = mo, day = d, hour = h, minute = mi, second = sec,
                       microsecond = us\<rparr>
              in if valid_datetime t then Some t else None)
         | _ \<Rightarrow> None)
      else None)"

text \<open>Earlier-or-equal on clock readings: the fields compared in order of weight.\<close>

definition datetime_le :: "datetime \<Rightarrow> datetime \<Rightarrow> bool" where
  "datetime_le a b \<longleftrightarrow>
     lexordp_eq [year a, month a, day a, hour a, minute a, second a, microsecond a]
                [year b, month b, day b, hour b, minute b, second b, microsecond b]"

subsection \<open>The contact record store\<close>

text \<open>
  What \<^verbatim>\<open>json.load\<close> returns and \<^verbatim>\<open>json.dump\<close> writes. The store only ever
  writes strings; a number stands for an integer.
\<close>

datatype json =
  JNull | JBool bool | JNum int | JStr string | JArr "json list" | JObj "(string \<times> json) list"

datatype exn = Exception string

text \<open>
  The file \<^verbatim>\<open>contact_messages.json\<close>: it does not exist, or opening or parsing it
  raises (the text is \<^verbatim>\<open>str(e)\<close>), or it parses to a JSON value.
\<close>

datatype store_file = NoFile | Unreadable string | Content json

text \<open>
  What happens when the list is written back: the write succeeds; or opening the file
  for writing raises and the file is as it was; or the file is opened, which empties it,
  and the dump raises, leaving the file in the state given.
\<close>

datatype write_result = Written | OpenFails string | DumpFails string store_file

text \<open>The steps of \<^verbatim>\<open>send_email\<close> that can raise, in the order they run.\<close>

datatype smtp_step = Build | Connect | Starttls | Login | Send_message | Quit

record env =
  uuid4 :: string
  now :: datetime
  write_fault :: write_result
  smtp_fault :: "(smtp_step \<times> string) option"
  EMAIL_USER :: "string option"
  EMAIL_PASSWORD :: "string option"

record ContactMessage =
  name :: string
  email :: string
  subject :: string
  message :: string

record ContactResponse =
  resp_success :: bool
  resp_message :: string
  resp_id :: "string option"

record mail =
  mail_from :: string
  mail_to :: string
  mail_subject :: string
  mail_body :: string

datatype smtp_command =
  SMTP string nat | STARTTLS | LOGIN string string | SEND_MESSAGE mail | QUIT

datatype log_record = INFO string | ERROR string

text \<open>
  What the handlers change: the store's file, the log, the tasks registered to run after
  the response, and the commands issued to the mail relay.
\<close>

record server =
  messages_file :: store_file
  logger :: "log_record list"
  background_tasks :: "ContactMessage list"
  relay :: "smtp_command list"

text \<open>The name Python prints for the type of a parsed value that is not a list.\<close>

fun type_name :: "json \<Rightarrow> string" where
  "type_name JNull = ''NoneType''"
| "type_name (JBool b) = ''bool''"
| "type_name (JNum n) = ''int''"
| "type_name (JStr s) = ''str''"
| "type_name (JArr xs) = ''list''"
| "type_name (JObj kvs) = ''dict''"

definition no_append :: "json \<Rightarrow> exn" where
  "no_append j =
     Exception ([CHR 0x27] @ type_name j @ [CHR 0x27] @ '' object has no attribute '' @
                [CHR 0x27] @ ''append'' @ [CHR 0x27])"

definition message_data :: "env \<Rightarrow> ContactMessage \<Rightarrow> json" where
  "message_data env contact_data =
     JObj [(''id'', JStr (uuid4 env)),
           (''name'', JStr (name contact_data)),
           (''email'', JStr (email contact_data)),
           (''subject'', JStr (subject contact_data)),
           (''message'', JStr (message contact_data)),
           (''timestamp'', JStr (isoformat (now env)))]"

text \<open>
  The body of the \<^verbatim>\<open>try\<close> of \<^verbatim>\<open>save_contact_message\<close>: the exception raised or
  the id returned, and the file afterwards.
\<close>

definition save_try :: "env \<Rightarrow> ContactMessage \<Rightarrow> store_file \<Rightarrow> (exn + string) \<times> store_file" where
  "save_try env contact_data f =
     (case (case f of
              NoFile \<Rightarrow> Inr (JArr [])
            | Unreadable e \<Rightarrow> Inl (Exception e)
            | Content j \<Rightarrow> Inr j) of
        Inl e \<Rightarrow> (Inl e, f)
      | Inr messages \<Rightarrow>
          (case messages of
             JArr xs \<Rightarrow>
               (case write_fault env of
                  Written \<Rightarrow> (Inr (uuid4 env), Content (JArr (xs @ [message_data env contact_data])))
                | OpenFails e \<Rightarrow> (Inl (Exception e), f)
                | DumpFails e f' \<Rightarrow> (Inl (Exception e), f'))
           | _ \<Rightarrow> (Inl (no_append messages), f)))"

definition save_contact_message ::
  "env \<Rightarrow> ContactMessage \<Rightarrow> server \<Rightarrow> string option \<times> server" where
  "save_contact_message env contact_data s =
     (case save_try env contact_data (messages_file s) of
        (Inr message_id, f) \<Rightarrow> (Some message_id, s\<lparr>messages_file := f\<rparr>)
      | (Inl (Exception e), f) \<Rightarrow>
          (None, s\<lparr>messages_file := f,
                   logger := logger s @ [ERROR (''Failed to save contact message: '' @ e)]\<rparr>))"

text \<open>
  Reading the whole store the way \<^verbatim>\<open>save_contact_message\<close> reads it: no file is the
  empty list, a file that parses to a list is that list, and anything else cannot be read
  as a list of records. \<^verbatim>\<open>d.get(k)\<close> reads a key of a stored object.
\<close>

definition read_store :: "server \<Rightarrow> json list option" where
  "read_store s =
     (case messages_file s of
        NoFile \<Rightarrow> Some []
      | Content (JArr xs) \<Rightarrow> Some xs
      | _ \<Rightarrow> None)"

definition json_get :: "json \<Rightarrow> string \<Rightarrow> json option" where
  "json_get j k = (case j of JObj kvs \<Rightarrow> map_of kvs k | _ \<Rightarrow> None)"

subsection \<open>The notifier\<close>

definition PERSONAL_INFO_email :: string where
  "PERSONAL_INFO_email = ''arunaakash675@gmail.com''"

record email_config =
  smtp_server :: string
  smtp_port :: nat
  config_email :: string
  config_password :: string

definition getenv :: "string option \<Rightarrow> string \<Rightarrow> string" where
  "getenv var dflt = (case var of None \<Rightarrow> dflt | Some v \<Rightarrow> v)"

definition EMAIL_CONFIG :: "env \<Rightarrow> email_config" where
  "EMAIL_CONFIG env =
     \<lparr>smtp_server = ''smtp.gmail.com'',
      smtp_port = 587,
      config_email = getenv (EMAIL_USER env) ''your-email@gmail.com'',
      config_password = getenv (EMAIL_PASSWORD env) ''your-app-password''\<rparr>"

definition newline :: string where
  "newline = [CHR 0x0A]"

definition indent :: string where
  "indent = replicate 8 (CHR '' '')"

definition email_body :: "ContactMessage \<Rightarrow> string" where
  "email_body contact_data =
     newline @
     indent @ ''New contact form submission:'' @ newline @
     indent @ newline @
     indent @ ''Name: '' @ name contact_data @ newline @
     indent @ ''Email: '' @ email contact_data @ newline @
     indent @ ''Subject: '' @ subject contact_data @ newline @
     indent @ newline @
     indent @ ''Message:'' @ newline @
     indent @ message contact_data @ newline @
     indent @ newline @
     indent @ ''---'' @ newline @
     indent @ ''Sent from Portfolio API'' @ newline @
     indent"

definition build_message :: "env \<Rightarrow> ContactMessage \<Rightarrow> mail" where
  "build_message env contact_data =
     \<lparr>mail_from = config_email (EMAIL_CONFIG env),
      mail_to = PERSONAL_INFO_email,
      mail_subject = ''Portfolio Contact: '' @ subject contact_data,
      mail_body = email_body contact_data\<rparr>"

definition raises :: "env \<Rightarrow> smtp_step \<Rightarrow> string option" where
  "raises env step =
     (case smtp_fault env of
        None \<Rightarrow> None
      | Some (failing, e) \<Rightarrow> if failing = step then Some e else None)"

text \<open>
  The body of the \<^verbatim>\<open>try\<close> of \<^verbatim>\<open>send_email\<close>, statement by statement: the
  exception raised, if any, and the commands the relay has been sent, the one that raised
  included.
\<close>

definition send_try :: "env \<Rightarrow> ContactMessage \<Rightarrow> smtp_command list \<Rightarrow> exn option \<times> smtp_command list" where
  "send_try env contact_data r =
     (case raises env Build of
        Some e \<Rightarrow> (Some (Exception e), r)
      | None \<Rightarrow>
     let msg = build_message env contact_data;
         r1 = r @ [SMTP (smtp_server (EMAIL_CONFIG env)) (smtp_port (EMAIL_CONFIG env))]
     in case raises env Connect of
        Some e \<Rightarrow> (Some (Exception e), r1)
      | None \<Rightarrow>
     let r2 = r1 @ [STARTTLS]
     in case raises env Starttls of
        Some e \<Rightarrow> (Some (Exception e), r2)
      | None \<Rightarrow>
     let r3 = r2 @ [LOGIN (config_email (EMAIL_CONFIG env)) (config_password (EMAIL_CONFIG env))]
     in case raises env Login of
        Some e \<Rightarrow> (Some (Exception e), r3)
      | None \<Rightarrow>
     let r4 = r3 @ [SEND_MESSAGE msg]
     in case raises env Send_message of
        Some e \<Rightarrow> (Some (Exception e), r4)
      | None \<Rightarrow>
     let r5 = r4 @ [QUIT]
     in case raises env Quit of
        Some e \<Rightarrow> (Some (Exception e), r5)
      | None \<Rightarrow> (None, r5))"

text \<open>The commands of one complete run of \<^verbatim>\<open>send_email\<close>, in order.\<close>

definition session :: "env \<Rightarrow> ContactMessage \<Rightarrow> smtp_command list" where
  "session env contact_data =
     [SMTP (smtp_server (EMAIL_CONFIG env)) (smtp_port (EMAIL_CONFIG env)),
      STARTTLS,
      LOGIN (config_email (EMAIL_CONFIG env)) (config_password (EMAIL_CONFIG env)),
      SEND_MESSAGE (build_message env contact_data),
      QUIT]"

definition send_email :: "env \<Rightarrow> ContactMessage \<Rightarrow> server \<Rightarrow> bool \<times> server" where
  "send_email env contact_data s =
     (case send_try env contact_data (relay s) of
        (None, r) \<Rightarrow>
          (True, s\<lparr>relay := r,
                   logger := logger s @
                     [INFO (''Email sent successfully for contact from '' @ name contact_data)]\<rparr>)
      | (Some (Exception e), r) \<Rightarrow>
          (False, s\<lparr>relay := r,
                    logger := logger s @ [ERROR (''Failed to send email: '' @ e)]\<rparr>))"

subsection \<open>The submission pipeline\<close>

text \<open>
  The field constraints of \<^verbatim>\<open>ContactMessage\<close>. \<^verbatim>\<open>EmailStr\<close> belongs to the
  validation library: it is a parameter, giving the address it accepts in normal form and
  nothing for a string that is not an address. The names of the failing fields are
  listed in the order of the fields.
\<close>

definition field_errors :: "(string \<Rightarrow> string option) \<Rightarrow> ContactMessage \<Rightarrow> string list" where
  "field_errors EmailStr body =
     (if 2 \<le> length (name body) \<and> length (name body) \<le> 100 then [] else [''name'']) @
     (case EmailStr (email body) of Some _ \<Rightarrow> [] | None \<Rightarrow> [''email'']) @
     (if 5 \<le> length (subject body) \<and> length (subject body) \<le> 200 then [] else [''subject'']) @
     (if 10 \<le> length (message body) \<and> length (message body) \<le> 1000 then [] else [''message''])"

definition ContactMessage_validate ::
  "(string \<Rightarrow> string option) \<Rightarrow> ContactMessage \<Rightarrow> string list + ContactMessage" where
  "ContactMessage_validate EmailStr body =
     (case (field_errors EmailStr body, EmailStr (email body)) of
        ([], Some address) \<Rightarrow> Inr (body\<lparr>email := address\<rparr>)
      | (errors, _) \<Rightarrow> Inl errors)"

text \<open>
  \<^verbatim>\<open>submit_contact\<close>. No statement of its \<^verbatim>\<open>try\<close> raises: \<^verbatim>\<open>save_contact_message\<close>
  catches what it meets, \<^verbatim>\<open>add_task\<close> appends to a list and the response is built
  from a boolean, a string and an optional string. The result is a sum all the same, the
  left side being the \<^verbatim>\<open>HTTPException\<close> of the \<^verbatim>\<open>except\<close> clause.
\<close>

definition submit_contact ::
  "env \<Rightarrow> ContactMessage \<Rightarrow> server \<Rightarrow> (HTTPException + ContactResponse) \<times> server" where
  "submit_contact env contact s =
     (case save_contact_message env contact s of
        (message_id, s1) \<Rightarrow>
          let s2 = s1\<lparr>background_tasks := background_tasks s1 @ [contact]\<rparr>
          in (Inr \<lparr>resp_success = True,
                   resp_message = ''Thank you for your message! I'' @ [CHR 0x27] @
                                  ''ll get back to you soon.'',
                   resp_id = message_id\<rparr>,
              s2))"

text \<open>The registered tasks, run in order once the response is fixed; their results are dropped.\<close>

fun run_tasks :: "env \<Rightarrow> ContactMessage list \<Rightarrow> server \<Rightarrow> server" where
  "run_tasks env [] s = s"
| "run_tasks env (contact # rest) s = run_tasks env rest (snd (send_email env contact s))"

datatype response =
  OK ContactResponse | Unprocessable "string list" | Failed HTTPException

text \<open>
  \<^verbatim>\<open>POST /api/contact\<close> as the framework serves it: the body is validated against
  \<^verbatim>\<open>ContactMessage\<close> before the handler is entered; the handler's result fixes the
  response; then the tasks of this request run.
\<close>

definition post_api_contact ::
  "(string \<Rightarrow> string option) \<Rightarrow> env \<Rightarrow> ContactMessage \<Rightarrow> server \<Rightarrow> response \<times> server" where
  "post_api_contact EmailStr env body s =
     (case ContactMessage_validate EmailStr body of
        Inl errors \<Rightarrow> (Unprocessable errors, s)
      | Inr contact \<Rightarrow>
          (case submit_contact env contact (s\<lparr>background_tasks := []\<rparr>) of
             (Inl e, s1) \<Rightarrow> (Failed e, s1)
           | (Inr r, s1) \<Rightarrow>
               (OK r, run_tasks env (background_tasks s1) (s1\<lparr>background_tasks := []\<rparr>))))"

subsection \<open>Creating a project\<close>

text \<open>
  The only handler that changes the catalog: \<^verbatim>\<open>create_project\<close> appends to
  \<^verbatim>\<open>PROJECTS_DATA\<close> and so returns the catalog with its result. The reads above
  return a result only.
\<close>

record ProjectCreate =
  pc_title :: string
  pc_category :: string
  pc_description :: string
  pc_tech :: "string list"
  pc_github :: string
  pc_demo :: string
  pc_featured :: bool

definition create_project :: "env \<Rightarrow> ProjectCreate \<Rightarrow> globals \<Rightarrow> Project \<times> globals" where
  "create_project env project g =
     (let new_project =
            \<lparr>p_id = uuid4 env,
             p_title = pc_title project,
             p_category = pc_category project,
             p_description = pc_description project,
             p_tech = pc_tech project,
             p_github = pc_github project,
             p_demo = pc_demo project,
             p_featured = pc_featured project,
             p_created_at = now env\<rparr>
      in (new_project, g\<lparr>PROJECTS_DATA := PROJECTS_DATA g @ [new_project]\<rparr>))"

subsection \<open>Sample inputs\<close>

text \<open>
  The clock at import, for the catalog as the module builds it: entry \<open>i\<close> is stamped
  \<open>i\<close> microseconds after a midnight.
\<close>

definition midnight :: datetime where
  "midnight = \<lparr>year = 2025, month = 1, day = 1, hour = 0, minute = 0, second = 0, microsecond = 0\<rparr>"

definition import_clock :: "nat \<Rightarrow> datetime" where
  "import_clock i = midnight\<lparr>microsecond := i\<rparr>"

text \<open>A small catalog with short texts.\<close>

definition demo_globals :: globals where
  "demo_globals =
     \<lparr>PROJECTS_DATA =
        [\<lparr>p_id = ''1'', p_title = ''Amazon Clone'', p_category = ''Shop'',
          p_description = ''Cart'', p_tech = [''HTML5'', ''CSS3''], p_github = ''g1'',
          p_demo = ''d1'', p_featured = True, p_created_at = midnight\<rparr>,
         \<lparr>p_id = ''2'', p_title = ''Weather'', p_category = ''Service'',
          p_description = ''Forecast'', p_tech = [''React JS''], p_github = ''g2'',
          p_demo = ''d2'', p_featured = False, p_created_at = midnight\<rparr>],
      SKILLS_DATA =
        [\<lparr>s_name = ''React JS'', s_level = 90, s_category = ''Frontend''\<rparr>,
         \<lparr>s_name = ''Python'', s_level = 82, s_category = ''Backend''\<rparr>],
      EXPERIENCES_DATA =
        [\<lparr>e_id = ''1'', e_title = ''Intern'', e_company = ''VDart'', e_location = ''Trichy'',
          e_period = ''2024'', e_description = ''Web'', e_type = ''internship'',
          e_achievements = [''APIs'']\<rparr>,
         \<lparr>e_id = ''3'', e_title = ''AI Workshop'', e_company = ''Conference'',
          e_location = ''Bangalore'', e_period = ''2025'', e_description = ''Chatbots'',
          e_type = ''workshop'', e_achievements = []\<rparr>]\<rparr>"

text \<open>A submission, the world it arrives in, and a stand-in for the address check.\<close>

definition demo_now :: datetime where
  "demo_now =
     \<lparr>year = 2026, month = 11, day = 3, hour = 9, minute = 5, second = 0, microsecond = 1234\<rparr>"

definition demo_env :: env where
  "demo_env =
     \<lparr>uuid4 = ''0b5e9c1e-7c1f-4d5e-9a57-3f2b8a6d4c10'',
      now = demo_now,
      write_fault = Written,
      smtp_fault = None,
      EMAIL_USER = None,
      EMAIL_PASSWORD = None\<rparr>"

definition demo_contact :: ContactMessage where
  "demo_contact =
     \<lparr>name = ''Ada'', email = ''ada@example.com'', subject = ''Hello there'',
      message = ''I would like to talk.''\<rparr>"

definition demo_server :: server where
  "demo_server = \<lparr>messages_file = NoFile, logger = [], background_tasks = [], relay = []\<rparr>"

definition corrupt_server :: server where
  "corrupt_server = demo_server\<lparr>messages_file := Unreadable ''Expecting value''\<rparr>"

definition demo_EmailStr :: "string \<Rightarrow> string option" where
  "demo_EmailStr s = (if CHR ''@'' \<in> set s then Some s else None)"

text \<open>Faults: a store that cannot be written, a store with an earlier entry, a relay that is down.\<close>

definition readonly_env :: env where
  "readonly_env = demo_env\<lparr>write_fault := OpenFails ''Permission denied''\<rparr>"

definition stored_server :: server where
  "stored_server = demo_server\<lparr>messages_file := Content (JArr [JStr ''earlier''])\<rparr>"

definition relay_down_env :: env where
  "relay_down_env = demo_env\<lparr>smtp_fault := Some (Connect, ''Connection refused'')\<rparr>"

section \<open>Properties\<close>

subsection \<open>Strings\<close>

lemma str_in_append_iff: "str_in sub s \<longleftrightarrow> (\<exists>pre post. s = pre @ sub @ post)"
proof (induction s)
  case Nil
  show ?case by auto
next
  case (Cons c cs)
  show ?case
  proof
    assume "str_in sub (c # cs)"
    then consider "prefix sub (c # cs)" | "str_in sub cs" by auto
    then show "\<exists>pre post. c # cs = pre @ sub @ post"
    proof cases
      case 1
      then obtain post where "c # cs = sub @ post" by (auto simp: prefix_def)
      then have "c # cs = [] @ sub @ post" by simp
      then show ?thesis by blast
    next
      case 2
      with Cons.IH obtain pre post where "cs = pre @ sub @ post" by blast
      then have "c # cs = (c # pre) @ sub @ post" by simp
      then show ?thesis by blast
    qed
  next
    assume "\<exists>pre post. c # cs = pre @ sub @ post"
    then obtain pre post where eq: "c # cs = pre @ sub @ post" by blast
    show "str_in sub (c # cs)"
    proof (cases pre)
      case Nil
      with eq have "prefix sub (c # cs)" by (simp add: prefix_def)
      then show ?thesis by simp
    next
      case (Cons a pre')
      with eq have "cs = pre' @ sub @ post" by simp
      with Cons.IH have "str_in sub cs" by blast
      then show ?thesis by simp
    qed
  qed
qed

lemma str_in_iff: "str_in sub s \<longleftrightarrow> substring sub s"
  by (simp add: str_in_append_iff substring_def)

lemma str_in_lower_iff: "str_in (lower q) (lower s) \<longleftrightarrow> ci_substring q s"
  by (simp add: str_in_iff ci_substring_def)

lemma lower_Nil: "lower [] = []"
  by (simp add: lower_def)

lemma lower_char_space: "isspace c \<Longrightarrow> lower_char c = c"
  by (auto simp: isspace_def lower_char_def Let_def)

lemma lower_whitespace: "list_all isspace q \<Longrightarrow> lower q = q"
  by (induction q) (simp_all add: lower_def lower_char_space)

lemma str_in_empty: "str_in [] s"
  by (cases s) simp_all

subsection \<open>Search\<close>

lemma search_projects_eq:
  "search_projects q ps acc =
     acc @ map project_hit
       (filter (\<lambda>p. ci_substring q (p_title p) \<or> ci_substring q (p_description p) \<or>
                    (\<exists>tech \<in> set (p_tech p). ci_substring q tech)) ps)"
  by (induction ps arbitrary: acc)
     (simp_all add: str_in_lower_iff list_ex_iff project_hit_def)

lemma search_skills_eq:
  "search_skills q ss acc =
     acc @ map skill_hit (filter (\<lambda>s. ci_substring q (s_name s)) ss)"
  by (induction ss arbitrary: acc) (simp_all add: str_in_lower_iff skill_hit_def)

text \<open>
  C10. The search ignores its category parameter: whatever two values (or absence) of
  the parameter are passed with the same query, the response is the same.
\<close>

theorem search_content_ignores_category:
  "search_content g q category1 = search_content g q category2"
  by (simp add: search_content_def)

lemma ci_substring_empty: "ci_substring [] s"
  using str_in_empty [of "lower s"] by (simp add: ci_substring_def lower_Nil str_in_iff)

text \<open>
  C6. For every query (non-empty ones among them) the search returns exactly: a hit for
  each project for which the query is a case-insensitive substring of the title, of the
  description or of some technology tag, in catalog order, followed by a hit for each
  skill for which the query is a case-insensitive substring of the name, in catalog
  order. Nothing is ranked, and every hit carries its type, title, description and URL.
\<close>

theorem search_content_results:
  "search_content g q category =
     \<lparr>search_query = q,
      search_results =
        map project_hit
          (filter (\<lambda>p. ci_substring q (p_title p) \<or>
                       ci_substring q (p_description p) \<or>
                       (\<exists>tech \<in> set (p_tech p). ci_substring q tech))
             (PROJECTS_DATA g)) @
        map skill_hit (filter (\<lambda>s. ci_substring q (s_name s)) (SKILLS_DATA g))\<rparr>"
  by (simp add: search_content_def search_projects_eq search_skills_eq)

text \<open>On the catalog of the module, the query \<^verbatim>\<open>React\<close> finds four projects and one skill.\<close>

theorem search_content_results_witness:
  "search_content (globals_init import_clock) ''React'' None =
     \<lparr>search_query = ''React'',
      search_results =
        map project_hit
          (filter (\<lambda>p. ci_substring ''React'' (p_title p) \<or>
                       ci_substring ''React'' (p_description p) \<or>
                       (\<exists>tech \<in> set (p_tech p). ci_substring ''React'' tech))
             (PROJECTS_DATA (globals_init import_clock))) @
        map skill_hit
          (filter (\<lambda>s. ci_substring ''React'' (s_name s))
             (SKILLS_DATA (globals_init import_clock)))\<rparr> \<and>
   map hit_title (search_results (search_content (globals_init import_clock) ''React'' None)) =
     [''Movie Discovery App'', ''Weather Forecast App'', ''Currency Converter'',
      ''CRUD Task Manager'', ''React JS'']"
proof -
  have titles:
    "map hit_title (search_results (search_content (globals_init import_clock) ''React'' None)) =
       [''Movie Discovery App'', ''Weather Forecast App'', ''Currency Converter'',
        ''CRUD Task Manager'', ''React JS'']"
    by code_simp
  show ?thesis
    using search_content_results [of "globals_init import_clock" "''React''" None] titles
    by simp
qed

text \<open>
  C1, as the specification states it, fails: on the catalog of the module the empty query
  returns fifteen hits (the five projects and the ten skills), not an empty result.
\<close>

theorem search_content_empty_query_counterexample:
  "length (search_results (search_content (globals_init import_clock) '''' None)) = 15"
  by (simp add: search_content_def globals_init_def PROJECTS_DATA_init_def SKILLS_DATA_init_def
        lower_Nil str_in_empty)

text \<open>
  C1, amended. An empty or whitespace-only query is searched like any other (the model
  has no error result, as the source has no failing branch): lowering leaves it as it
  is, and the hits are the projects, then the skills, whose lowered texts contain it. The
  empty query is contained in every text, so it returns a hit for every project,
  followed by a hit for every skill.
\<close>

theorem search_content_blank_query:
  "list_all isspace q \<Longrightarrow>
     search_results (search_content g q category) =
       map project_hit
         (filter (\<lambda>p. substring q (lower (p_title p)) \<or>
                      substring q (lower (p_description p)) \<or>
                      (\<exists>tech \<in> set (p_tech p). substring q (lower tech)))
            (PROJECTS_DATA g)) @
       map skill_hit (filter (\<lambda>s. substring q (lower (s_name s))) (SKILLS_DATA g)) \<and>
     (q = [] \<longrightarrow>
        search_results (search_content g q category) =
          map project_hit (PROJECTS_DATA g) @ map skill_hit (SKILLS_DATA g))"
proof (intro conjI impI)
  assume ws: "list_all isspace q"
  have "ci_substring q s \<longleftrightarrow> substring q (lower s)" for s
    by (simp add: ci_substring_def lower_whitespace [OF ws])
  then show "search_results (search_content g q category) =
       map project_hit
         (filter (\<lambda>p. substring q (lower (p_title p)) \<or>
                      substring q (lower (p_description p)) \<or>
                      (\<exists>tech \<in> set (p_tech p). substring q (lower tech)))
            (PROJECTS_DATA g)) @
       map skill_hit (filter (\<lambda>s. substring q (lower (s_name s))) (SKILLS_DATA g))"
    by (simp add: search_content_def search_projects_eq search_skills_eq)
next
  assume "q = []"
  then show "search_results (search_content g q category) =
          map project_hit (PROJECTS_DATA g) @ map skill_hit (SKILLS_DATA g)"
    by (simp add: search_content_def search_projects_eq search_skills_eq ci_substring_empty)
qed

text \<open>
  On the small catalog a single space finds the title, the tag and the skill name that
  contain one, and the empty query finds everything.
\<close>

theorem search_content_blank_query_witness:
  "list_all isspace '' '' \<and>
   map hit_title (search_results (search_content demo_globals '' '' None)) =
     [''Amazon Clone'', ''Weather'', ''React JS''] \<and>
   list_all isspace '''' \<and>
   search_results (search_content demo_globals '''' None) =
     map project_hit (PROJECTS_DATA demo_globals) @ map skill_hit (SKILLS_DATA demo_globals)"
proof -
  have h1: "list_all isspace '' ''" by code_simp
  have h2: "list_all isspace ''''" by simp
  have e: "map hit_title (search_results (search_content demo_globals '' '' None)) =
     [''Amazon Clone'', ''Weather'', ''React JS'']"
    by code_simp
  from search_content_blank_query [OF h2, of demo_globals None]
  have x: "search_results (search_content demo_globals '''' None) =
     map project_hit (PROJECTS_DATA demo_globals) @ map skill_hit (SKILLS_DATA demo_globals)"
    by blast
  show ?thesis
    by (intro conjI) (fact h1 h2 e x)+
qed

subsection \<open>Catalog reads\<close>

text \<open>
  C7, as the specification states it, fails for the empty string: on the catalog of the
  module \<^verbatim>\<open>get_skills\<close> with the category \<^verbatim>\<open>""\<close> returns all ten skills, none of
  which has the empty category.
\<close>

theorem get_skills_empty_category_counterexample:
  "get_skills (globals_init import_clock) (Some '''') = SKILLS_DATA_init \<and>
   map s_category SKILLS_DATA_init =
     [''Frontend'', ''Frontend'', ''Frontend'', ''Frontend'', ''Frontend'', ''Frontend'',
      ''Backend'', ''Backend'', ''Database'', ''Tools'']"
  by (simp add: get_skills_def globals_init_def SKILLS_DATA_init_def)

text \<open>
  C7, amended. \<^verbatim>\<open>get_skills\<close> with a non-empty category and \<^verbatim>\<open>get_experiences\<close>
  with a non-empty type return exactly the records whose field equals the value after
  lowering both, in catalog order; \<^verbatim>\<open>get_projects\<close> with a featured flag returns
  exactly the records whose flag equals it; with no criterion each returns its whole
  collection, and so do \<^verbatim>\<open>get_skills\<close> and \<^verbatim>\<open>get_experiences\<close> for the empty
  string.
\<close>

theorem catalog_filters:
  "get_projects g None = PROJECTS_DATA g \<and>
   get_projects g (Some featured) = filter (\<lambda>p. p_featured p = featured) (PROJECTS_DATA g) \<and>
   get_skills g None = SKILLS_DATA g \<and>
   get_skills g (Some []) = SKILLS_DATA g \<and>
   (category \<noteq> [] \<longrightarrow>
      get_skills g (Some category) =
        filter (\<lambda>s. lower (s_category s) = lower category) (SKILLS_DATA g)) \<and>
   get_experiences g None = EXPERIENCES_DATA g \<and>
   get_experiences g (Some []) = EXPERIENCES_DATA g \<and>
   (type \<noteq> [] \<longrightarrow>
      get_experiences g (Some type) =
        filter (\<lambda>e. lower (e_type e) = lower type) (EXPERIENCES_DATA g))"
  by (simp add: get_projects_def get_skills_def get_experiences_def)

text \<open>
  On the catalog of the module: six of the ten skills are in the category Frontend,
  however it is capitalised, one experience is a workshop and two projects are featured.
\<close>

theorem catalog_filters_witness:
  "''FRONTEND'' \<noteq> [] \<and>
   map s_name (get_skills (globals_init import_clock) (Some ''FRONTEND'')) =
     [''React JS'', ''JavaScript'', ''HTML'', ''CSS'', ''TypeScript'', ''Tailwind CSS''] \<and>
   ''Workshop'' \<noteq> [] \<and>
   map e_id (get_experiences (globals_init import_clock) (Some ''Workshop'')) = [''3''] \<and>
   map p_id (get_projects (globals_init import_clock) (Some True)) = [''1'', ''2'']"
proof -
  let ?g = "globals_init import_clock"
  have a: "map s_name (filter (\<lambda>s. lower (s_category s) = lower ''FRONTEND'') (SKILLS_DATA ?g)) =
     [''React JS'', ''JavaScript'', ''HTML'', ''CSS'', ''TypeScript'', ''Tailwind CSS'']"
    by code_simp
  have b: "map e_id (filter (\<lambda>e. lower (e_type e) = lower ''Workshop'') (EXPERIENCES_DATA ?g)) = [''3'']"
    by code_simp
  have c: "map p_id (filter (\<lambda>p. p_featured p = True) (PROJECTS_DATA ?g)) = [''1'', ''2'']"
    by code_simp
  from catalog_filters [of ?g True "''FRONTEND''" "''Workshop''"] a b c
  show ?thesis by simp
qed



lemma find_by_key:
  assumes "x \<in> set xs" and "key x = k"
  shows "\<exists>r. find (\<lambda>y. key y = k) xs = Some r \<and> r \<in> set xs \<and> key r = k \<and>
             (distinct (map key xs) \<longrightarrow> r = x)"
proof -
  from assms have "find (\<lambda>y. key y = k) xs \<noteq> None"
    by (auto simp: find_None_iff)
  then obtain r where r: "find (\<lambda>y. key y = k) xs = Some r"
    by auto
  then have mem: "r \<in> set xs" and kr: "key r = k"
    by (auto simp: find_Some_iff)
  have "r = x" if "distinct (map key xs)"
  proof -
    from that have "inj_on key (set xs)" by (simp add: distinct_map)
    with mem kr assms show ?thesis by (auto dest: inj_onD)
  qed
  with r mem kr show ?thesis by blast
qed

lemma find_no_key:
  "\<forall>x \<in> set xs. key x \<noteq> k \<Longrightarrow> find (\<lambda>y. key y = k) xs = None"
  by (auto simp: find_None_iff)

text \<open>
  C9. A lookup by id returns a record of the collection with that id whenever one exists
  (the first in catalog order; the very record asked for when ids are unique), and fails
  with the 404 exception when no record has the id. The lookups read the catalog and
  return a result only: unlike \<^verbatim>\<open>create_project\<close> they return no catalog, so none
  is changed.
\<close>

theorem get_by_id:
  "(p \<in> set (PROJECTS_DATA g) \<and> p_id p = project_id \<longrightarrow>
      (\<exists>r. get_project g project_id = Inr r \<and> r \<in> set (PROJECTS_DATA g) \<and>
           p_id r = project_id \<and> (distinct (map p_id (PROJECTS_DATA g)) \<longrightarrow> r = p))) \<and>
   ((\<forall>p \<in> set (PROJECTS_DATA g). p_id p \<noteq> project_id) \<longrightarrow>
      get_project g project_id = Inl (HTTPException 404 ''Project not found'')) \<and>
   (e \<in> set (EXPERIENCES_DATA g) \<and> e_id e = experience_id \<longrightarrow>
      (\<exists>r. get_experience g experience_id = Inr r \<and> r \<in> set (EXPERIENCES_DATA g) \<and>
           e_id r = experience_id \<and> (distinct (map e_id (EXPERIENCES_DATA g)) \<longrightarrow> r = e))) \<and>
   ((\<forall>e \<in> set (EXPERIENCES_DATA g). e_id e \<noteq> experience_id) \<longrightarrow>
      get_experience g experience_id = Inl (HTTPException 404 ''Experience not found''))"
proof (intro conjI impI)
  assume "p \<in> set (PROJECTS_DATA g) \<and> p_id p = project_id"
  then show "\<exists>r. get_project g project_id = Inr r \<and> r \<in> set (PROJECTS_DATA g) \<and>
           p_id r = project_id \<and> (distinct (map p_id (PROJECTS_DATA g)) \<longrightarrow> r = p)"
    using find_by_key [of p "PROJECTS_DATA g" p_id project_id]
    by (auto simp: get_project_def)
next
  assume "\<forall>p \<in> set (PROJECTS_DATA g). p_id p \<noteq> project_id"
  then show "get_project g project_id = Inl (HTTPException 404 ''Project not found'')"
    by (simp add: get_project_def find_no_key)
next
  assume "e \<in> set (EXPERIENCES_DATA g) \<and> e_id e = experience_id"
  then show "\<exists>r. get_experience g experience_id = Inr r \<and> r \<in> set (EXPERIENCES_DATA g) \<and>
           e_id r = experience_id \<and> (distinct (map e_id (EXPERIENCES_DATA g)) \<longrightarrow> r = e)"
    using find_by_key [of e "EXPERIENCES_DATA g" e_id experience_id]
    by (auto simp: get_experience_def)
next
  assume "\<forall>e \<in> set (EXPERIENCES_DATA g). e_id e \<noteq> experience_id"
  then show "get_experience g experience_id = Inl (HTTPException 404 ''Experience not found'')"
    by (simp add: get_experience_def find_no_key)
qed

text \<open>On the small catalog: ids that exist and ids that do not.\<close>

theorem get_by_id_witness:
  "get_project demo_globals ''2'' = Inr (PROJECTS_DATA demo_globals ! 1) \<and>
   get_project demo_globals ''7'' = Inl (HTTPException 404 ''Project not found'') \<and>
   get_experience demo_globals ''3'' = Inr (EXPERIENCES_DATA demo_globals ! 1) \<and>
   get_experience demo_globals ''2'' = Inl (HTTPException 404 ''Experience not found'')"
proof -
  let ?p = "PROJECTS_DATA demo_globals ! 1" and ?e = "EXPERIENCES_DATA demo_globals ! 1"
  have p: "?p \<in> set (PROJECTS_DATA demo_globals) \<and> p_id ?p = ''2''"
    by (simp add: demo_globals_def)
  have dp: "distinct (map p_id (PROJECTS_DATA demo_globals))"
    by (simp add: demo_globals_def)
  have np: "\<forall>p \<in> set (PROJECTS_DATA demo_globals). p_id p \<noteq> ''7''"
    by (simp add: demo_globals_def)
  have e: "?e \<in> set (EXPERIENCES_DATA demo_globals) \<and> e_id ?e = ''3''"
    by (simp add: demo_globals_def)
  have de: "distinct (map e_id (EXPERIENCES_DATA demo_globals))"
    by (simp add: demo_globals_def)
  have ne: "\<forall>e \<in> set (EXPERIENCES_DATA demo_globals). e_id e \<noteq> ''2''"
    by (simp add: demo_globals_def)
  from get_by_id [of ?p demo_globals "''2''" ?e "''3''"] p dp e de
  have "get_project demo_globals ''2'' = Inr ?p" and "get_experience demo_globals ''3'' = Inr ?e"
    by auto
  moreover from get_by_id [of ?p demo_globals "''7''" ?e "''2''"] np ne
  have "get_project demo_globals ''7'' = Inl (HTTPException 404 ''Project not found'')"
    and "get_experience demo_globals ''2'' = Inl (HTTPException 404 ''Experience not found'')"
    by auto
  ultimately show ?thesis by simp
qed

subsection \<open>Timestamps\<close>

lemma digit_val_digit_char: "d < 10 \<Longrightarrow> digit_val (digit_char d) = Some d"
  by (simp add: digit_val_def digit_char_def)

lemma number_from_append:
  "number_from acc (xs @ ys) =
     (case number_from acc xs of None \<Rightarrow> None | Some v \<Rightarrow> number_from v ys)"
  by (induction xs arbitrary: acc) (simp_all split: option.splits)

lemma number_from_str_nat: "number_from 0 (str_nat n) = Some n"
proof (induction n rule: str_nat.induct)
  case (1 n)
  show ?case
  proof (cases "n < 10")
    case True
    then show ?thesis
      by (simp add: str_nat.simps [of n] digit_val_digit_char)
  next
    case False
    with 1 have "number_from 0 (str_nat (n div 10)) = Some (n div 10)" by simp
    with False show ?thesis
      by (simp add: str_nat.simps [of n] number_from_append digit_val_digit_char)
  qed
qed

lemma str_nat_not_Nil: "str_nat n \<noteq> []"
  by (subst str_nat.simps) simp

lemma length_str_nat: "0 < w \<Longrightarrow> n < 10 ^ w \<Longrightarrow> length (str_nat n) \<le> w"
proof (induction n arbitrary: w rule: str_nat.induct)
  case (1 n)
  show ?case
  proof (cases "n < 10")
    case True
    with 1 show ?thesis by (simp add: str_nat.simps [of n])
  next
    case False
    from 1(2,3) False have w: "1 < w"
      by (cases "w = 1") auto
    then obtain v where v: "w = Suc v" "0 < v" by (cases w) auto
    with 1(3) have "n div 10 < 10 ^ v"
      by (simp add: less_mult_imp_div_less mult.commute)
    with 1(1) False v have "length (str_nat (n div 10)) \<le> v" by simp
    with False v show ?thesis by (simp add: str_nat.simps [of n])
  qed
qed

lemma length_zpad: "0 < w \<Longrightarrow> n < 10 ^ w \<Longrightarrow> length (zpad w n) = w"
  using length_str_nat [of w n] by (simp add: zpad_def)

lemma number_from_zeros: "number_from 0 (replicate k (CHR ''0'') @ s) = number_from 0 s"
  by (induction k) (simp_all add: digit_val_def)

lemma number_zpad: "number (zpad w n) = Some n"
  by (simp add: number_def zpad_def str_nat_not_Nil number_from_zeros number_from_str_nat)

lemma digits_at_append:
  "length pre = start \<Longrightarrow> length x = len \<Longrightarrow> digits_at start len (pre @ x @ post) = number x"
  by (simp add: digits_at_def)

lemma nth_at: "length pre = i \<Longrightarrow> (pre @ c # post) ! i = c"
  by auto

lemma fromisoformat_isoformat:
  assumes v: "valid_datetime t"
  shows "fromisoformat (isoformat t) = Some t"
proof -
  let ?Y = "zpad 4 (year t)" and ?M = "zpad 2 (month t)" and ?D = "zpad 2 (day t)"
  let ?h = "zpad 2 (hour t)" and ?m = "zpad 2 (minute t)" and ?s = "zpad 2 (second t)"
  let ?u = "if microsecond t \<noteq> 0 then ''.'' @ zpad 6 (microsecond t) else []"
  let ?iso = "isoformat t"
  have dim: "days_in_month (year t) (month t) \<le> 31"
    by (simp add: days_in_month_def)
  from v dim have len:
    "length ?Y = 4" "length ?M = 2" "length ?D = 2" "length ?h = 2" "length ?m = 2"
    "length ?s = 2" "length (zpad 6 (microsecond t)) = 6"
    by (simp_all add: valid_datetime_def length_zpad)
  have iso: "?iso = ?Y @ ''-'' @ ?M @ ''-'' @ ?D @ ''T'' @ ?h @ '':'' @ ?m @ '':'' @ ?s @ ?u"
    by (simp add: isoformat_def)
  have total: "length ?iso = (if microsecond t \<noteq> 0 then 26 else 19)"
    by (simp add: iso len)
  have seps: "?iso ! 4 = CHR ''-''" "?iso ! 7 = CHR ''-''" "?iso ! 10 = CHR ''T''"
    "?iso ! 13 = CHR '':''" "?iso ! 16 = CHR '':''"
    using nth_at [of "?Y" 4 "CHR ''-''"]
      nth_at [of "?Y @ ''-'' @ ?M" 7 "CHR ''-''"]
      nth_at [of "?Y @ ''-'' @ ?M @ ''-'' @ ?D" 10 "CHR ''T''"]
      nth_at [of "?Y @ ''-'' @ ?M @ ''-'' @ ?D @ ''T'' @ ?h" 13 "CHR '':''"]
      nth_at [of "?Y @ ''-'' @ ?M @ ''-'' @ ?D @ ''T'' @ ?h @ '':'' @ ?m" 16 "CHR '':''"]
    by (simp_all add: iso len)
  have dot: "microsecond t \<noteq> 0 \<Longrightarrow> ?iso ! 19 = CHR ''.''"
    using nth_at [of "?Y @ ''-'' @ ?M @ ''-'' @ ?D @ ''T'' @ ?h @ '':'' @ ?m @ '':'' @ ?s" 19 "CHR ''.''"]
    by (simp add: iso len)
  have fY: "digits_at 0 4 ?iso = Some (year t)"
    using digits_at_append [of "[]" 0 ?Y 4] by (simp add: iso len number_zpad)
  have fM: "digits_at 5 2 ?iso = Some (month t)"
    using digits_at_append [of "?Y @ ''-''" 5 ?M 2] by (simp add: iso len number_zpad)
  have fD: "digits_at 8 2 ?iso = Some (day t)"
    using digits_at_append [of "?Y @ ''-'' @ ?M @ ''-''" 8 ?D 2]
    by (simp add: iso len number_zpad)
  have fh: "digits_at 11 2 ?iso = Some (hour t)"
    using digits_at_append [of "?Y @ ''-'' @ ?M @ ''-'' @ ?D @ ''T''" 11 ?h 2]
    by (simp add: iso len number_zpad)
  have fm: "digits_at 14 2 ?iso = Some (minute t)"
    using digits_at_append [of "?Y @ ''-'' @ ?M @ ''-'' @ ?D @ ''T'' @ ?h @ '':''" 14 ?m 2]
    by (simp add: iso len number_zpad)
  have fs: "digits_at 17 2 ?iso = Some (second t)"
    using digits_at_append
      [of "?Y @ ''-'' @ ?M @ ''-'' @ ?D @ ''T'' @ ?h @ '':'' @ ?m @ '':''" 17 ?s 2]
    by (simp add: iso len number_zpad)
  have fu: "microsecond t \<noteq> 0 \<Longrightarrow> digits_at 20 6 ?iso = Some (microsecond t)"
    using digits_at_append
      [of "?Y @ ''-'' @ ?M @ ''-'' @ ?D @ ''T'' @ ?h @ '':'' @ ?m @ '':'' @ ?s @ ''.''" 20
          "zpad 6 (microsecond t)" 6 "[]"]
    by (simp add: iso len number_zpad)
  have shape: "length ?iso = 19 \<or> length ?iso = 26 \<and> ?iso ! 19 = CHR ''.''"
    using total dot by auto
  have fu': "(if length ?iso = 19 then Some 0 else digits_at 20 6 ?iso) = Some (microsecond t)"
    using total fu by auto
  have rec: "\<lparr>year = year t, month = month t, day = day t, hour = hour t, minute = minute t,
              second = second t, microsecond = microsecond t\<rparr> = t"
    by simp
  from shape seps fY fM fD fh fm fs fu' v show ?thesis
    unfolding fromisoformat_def by (simp add: Let_def rec)
qed

subsection \<open>The contact record store\<close>

lemma save_try_raises_iff:
  "(\<exists>e. fst (save_try env contact_data f) = Inl e) \<longleftrightarrow>
     (\<exists>e. f = Unreadable e) \<or> (\<exists>j. f = Content j \<and> (\<forall>xs. j \<noteq> JArr xs)) \<or>
     write_fault env \<noteq> Written"
  by (cases f; cases "write_fault env")
     (auto simp: save_try_def split: json.splits)

lemma save_contact_message_raises:
  "fst (save_try env contact_data (messages_file s)) = Inl e \<Longrightarrow>
     fst (save_contact_message env contact_data s) = None"
  by (cases e) (auto simp: save_contact_message_def split: prod.splits sum.splits exn.splits)

text \<open>
  C2, as the specification states it, fails: with a store file that cannot be parsed
  \<^verbatim>\<open>save_contact_message\<close> returns \<^verbatim>\<open>None\<close>, logs the fault and leaves the file as
  it was; the prior list is not taken as empty and nothing is appended.
\<close>

theorem save_contact_message_corrupt_counterexample:
  "save_contact_message demo_env demo_contact corrupt_server =
     (None, corrupt_server\<lparr>logger := [ERROR ''Failed to save contact message: Expecting value'']\<rparr>) \<and>
   messages_file corrupt_server = Unreadable ''Expecting value''"
  by (simp add: save_contact_message_def save_try_def corrupt_server_def demo_server_def)

text \<open>
  C2, amended. If reading the store fails (the file cannot be opened or parsed), or what
  is read is not a list, \<^verbatim>\<open>save_contact_message\<close> does not append: it returns
  \<^verbatim>\<open>None\<close>, logs the fault, and the file and everything else but the log stay as they
  were.
\<close>

theorem save_contact_message_unreadable:
  "(messages_file s = Unreadable e \<longrightarrow>
      save_contact_message env contact_data s =
        (None, s\<lparr>logger := logger s @ [ERROR (''Failed to save contact message: '' @ e)]\<rparr>)) \<and>
   (messages_file s = Content j \<and> (\<forall>xs. j \<noteq> JArr xs) \<longrightarrow>
      (\<exists>e. save_contact_message env contact_data s =
        (None, s\<lparr>logger := logger s @ [ERROR (''Failed to save contact message: '' @ e)]\<rparr>)))"
proof (intro conjI impI)
  assume "messages_file s = Unreadable e"
  then show "save_contact_message env contact_data s =
        (None, s\<lparr>logger := logger s @ [ERROR (''Failed to save contact message: '' @ e)]\<rparr>)"
    by (simp add: save_contact_message_def save_try_def)
next
  assume a: "messages_file s = Content j \<and> (\<forall>xs. j \<noteq> JArr xs)"
  obtain e where e: "no_append j = Exception e" by (cases "no_append j")
  from a e have "save_contact_message env contact_data s =
        (None, s\<lparr>logger := logger s @ [ERROR (''Failed to save contact message: '' @ e)]\<rparr>)"
    by (cases j) (simp_all add: save_contact_message_def save_try_def)
  then show "\<exists>e. save_contact_message env contact_data s =
        (None, s\<lparr>logger := logger s @ [ERROR (''Failed to save contact message: '' @ e)]\<rparr>)"
    by blast
qed

text \<open>A file that does not parse, and a file that holds an object where a list is expected.\<close>

theorem save_contact_message_unreadable_witness:
  "messages_file corrupt_server = Unreadable ''Expecting value'' \<and>
   fst (save_contact_message demo_env demo_contact corrupt_server) = None \<and>
   messages_file (snd (save_contact_message demo_env demo_contact corrupt_server)) =
     Unreadable ''Expecting value'' \<and>
   fst (save_contact_message demo_env demo_contact (demo_server\<lparr>messages_file := Content (JObj [])\<rparr>)) = None \<and>
   messages_file (snd (save_contact_message demo_env demo_contact
       (demo_server\<lparr>messages_file := Content (JObj [])\<rparr>))) = Content (JObj [])"
proof -
  have h: "messages_file corrupt_server = Unreadable ''Expecting value''"
    by (simp add: corrupt_server_def)
  let ?s = "demo_server\<lparr>messages_file := Content (JObj [])\<rparr>"
  have h2: "messages_file ?s = Content (JObj []) \<and> (\<forall>xs. JObj [] \<noteq> JArr xs)"
    by simp
  from save_contact_message_unreadable
         [of corrupt_server "''Expecting value''" demo_env demo_contact "JObj []"] h
  have a: "save_contact_message demo_env demo_contact corrupt_server =
        (None, corrupt_server\<lparr>logger := logger corrupt_server @
           [ERROR (''Failed to save contact message: '' @ ''Expecting value'')]\<rparr>)"
    by blast
  from save_contact_message_unreadable [of ?s "''x''" demo_env demo_contact "JObj []"] h2
  obtain e where b: "save_contact_message demo_env demo_contact ?s =
        (None, ?s\<lparr>logger := logger ?s @ [ERROR (''Failed to save contact message: '' @ e)]\<rparr>)"
    by blast
  show ?thesis
    by (simp add: a b h)
qed

subsection \<open>The submission pipeline\<close>

lemma validate_Inr_iff:
  "ContactMessage_validate EmailStr body = Inr contact \<longleftrightarrow>
     field_errors EmailStr body = [] \<and>
     (\<exists>address. EmailStr (email body) = Some address \<and> contact = body\<lparr>email := address\<rparr>)"
  by (auto simp: ContactMessage_validate_def split: list.splits option.splits)

lemma validate_Inl_iff:
  "ContactMessage_validate EmailStr body = Inl errors \<longleftrightarrow>
     field_errors EmailStr body \<noteq> [] \<and> errors = field_errors EmailStr body"
  by (auto simp: ContactMessage_validate_def field_errors_def split: list.splits option.splits)

text \<open>
  C3. For a valid submission, whenever the \<^verbatim>\<open>try\<close> of \<^verbatim>\<open>save_contact_message\<close>
  raises (the read fails, what is read is not a list, or the write fails, by
  \<open>save_try_raises_iff\<close>), \<^verbatim>\<open>save_contact_message\<close> returns \<^verbatim>\<open>None\<close> and
  raises nothing, and \<^verbatim>\<open>submit_contact\<close>, also when reached through the endpoint,
  returns the success response with \<^verbatim>\<open>id\<close> \<^verbatim>\<open>None\<close>.
\<close>

theorem persistence_failure_is_contained:
  assumes valid: "ContactMessage_validate EmailStr body = Inr contact"
    and fails: "fst (save_try env contact (messages_file s)) = Inl e"
  shows "fst (save_contact_message env contact s) = None \<and>
     (\<exists>r. fst (submit_contact env contact s) = Inr r \<and> resp_success r \<and> resp_id r = None) \<and>
     (\<exists>r. fst (post_api_contact EmailStr env body s) = OK r \<and> resp_success r \<and> resp_id r = None)"
proof -
  have a: "fst (save_contact_message env contact s) = None"
    using fails by (rule save_contact_message_raises)
  have b: "fst (save_contact_message env contact (s\<lparr>background_tasks := []\<rparr>)) = None"
    using fails by (intro save_contact_message_raises [of _ _ _ e]) simp
  from a have c: "\<exists>r. fst (submit_contact env contact s) = Inr r \<and> resp_success r \<and> resp_id r = None"
    by (auto simp: submit_contact_def split: prod.splits)
  from b valid have d: "\<exists>r. fst (post_api_contact EmailStr env body s) = OK r \<and> resp_success r \<and> resp_id r = None"
    by (auto simp: post_api_contact_def submit_contact_def split: prod.splits)
  from a c d show ?thesis by blast
qed

text \<open>A store that cannot be opened for writing.\<close>

theorem persistence_failure_is_contained_witness:
  "ContactMessage_validate demo_EmailStr demo_contact = Inr demo_contact \<and>
   fst (save_try readonly_env demo_contact (messages_file demo_server)) =
     Inl (Exception ''Permission denied'') \<and>
   fst (save_contact_message readonly_env demo_contact demo_server) = None \<and>
   fst (post_api_contact demo_EmailStr readonly_env demo_contact demo_server) =
     OK \<lparr>resp_success = True,
         resp_message = ''Thank you for your message! I'' @ [CHR 0x27] @
                        ''ll get back to you soon.'',
         resp_id = None\<rparr>"
proof -
  have v: "ContactMessage_validate demo_EmailStr demo_contact = Inr demo_contact"
    by (simp add: ContactMessage_validate_def field_errors_def demo_EmailStr_def demo_contact_def)
  have f: "fst (save_try readonly_env demo_contact (messages_file demo_server)) =
     Inl (Exception ''Permission denied'')"
    by (simp add: save_try_def readonly_env_def demo_server_def)
  from persistence_failure_is_contained [OF v f]
  have none: "fst (save_contact_message readonly_env demo_contact demo_server) = None"
    and "\<exists>r. fst (post_api_contact demo_EmailStr readonly_env demo_contact demo_server) = OK r \<and>
           resp_success r \<and> resp_id r = None"
    by blast+
  then obtain r where r: "fst (post_api_contact demo_EmailStr readonly_env demo_contact demo_server) = OK r"
    and id: "resp_id r = None"
    by blast
  have "\<exists>i. fst (post_api_contact demo_EmailStr readonly_env demo_contact demo_server) =
     OK \<lparr>resp_success = True,
         resp_message = ''Thank you for your message! I'' @ [CHR 0x27] @
                        ''ll get back to you soon.'',
         resp_id = i\<rparr>"
    by (auto simp: post_api_contact_def v submit_contact_def split: prod.splits)
  with r id
  have resp: "fst (post_api_contact demo_EmailStr readonly_env demo_contact demo_server) =
     OK \<lparr>resp_success = True,
         resp_message = ''Thank you for your message! I'' @ [CHR 0x27] @
                        ''ll get back to you soon.'',
         resp_id = None\<rparr>"
    by auto
  show ?thesis
    by (intro conjI) (fact v f none resp)+
qed

text \<open>
  C4. A submission that violates a constraint (name length outside 2..100, an address
  \<^verbatim>\<open>EmailStr\<close> rejects, subject length outside 5..200, message length outside
  10..1000) is answered with a validation error naming at least one field, and the state
  is returned as it was: the store file, the log, the registered tasks and the relay.
\<close>

theorem invalid_submission_has_no_effect:
  assumes "length (name body) < 2 \<or> 100 < length (name body) \<or>
           EmailStr (email body) = None \<or>
           length (subject body) < 5 \<or> 200 < length (subject body) \<or>
           length (message body) < 10 \<or> 1000 < length (message body)"
  shows "\<exists>errors. errors \<noteq> [] \<and>
           post_api_contact EmailStr env body s = (Unprocessable errors, s)"
proof -
  from assms have "field_errors EmailStr body \<noteq> []"
    by (auto simp: field_errors_def)
  then have "ContactMessage_validate EmailStr body = Inl (field_errors EmailStr body)"
    by (simp add: validate_Inl_iff)
  with \<open>field_errors EmailStr body \<noteq> []\<close> show ?thesis
    by (simp add: post_api_contact_def)
qed

text \<open>A name of length 1 and a message of length 5.\<close>

theorem invalid_submission_has_no_effect_witness:
  "length (name (demo_contact\<lparr>name := ''A''\<rparr>)) < 2 \<and>
   post_api_contact demo_EmailStr demo_env (demo_contact\<lparr>name := ''A''\<rparr>) demo_server =
     (Unprocessable [''name''], demo_server) \<and>
   length (message (demo_contact\<lparr>message := ''Hello''\<rparr>)) < 10 \<and>
   post_api_contact demo_EmailStr demo_env (demo_contact\<lparr>message := ''Hello''\<rparr>) demo_server =
     (Unprocessable [''message''], demo_server)"
proof -
  let ?b1 = "demo_contact\<lparr>name := ''A''\<rparr>" and ?b2 = "demo_contact\<lparr>message := ''Hello''\<rparr>"
  have h1: "length (name ?b1) < 2" by simp
  have h2: "length (message ?b2) < 10" by simp
  from invalid_submission_has_no_effect [of ?b1 demo_EmailStr demo_env demo_server] h1
  obtain e1 where e1: "post_api_contact demo_EmailStr demo_env ?b1 demo_server = (Unprocessable e1, demo_server)"
    by blast
  from invalid_submission_has_no_effect [of ?b2 demo_EmailStr demo_env demo_server] h2
  obtain e2 where e2: "post_api_contact demo_EmailStr demo_env ?b2 demo_server = (Unprocessable e2, demo_server)"
    by blast
  have v1: "ContactMessage_validate demo_EmailStr ?b1 = Inl [''name'']"
    by (simp add: ContactMessage_validate_def field_errors_def demo_EmailStr_def demo_contact_def)
  have v2: "ContactMessage_validate demo_EmailStr ?b2 = Inl [''message'']"
    by (simp add: ContactMessage_validate_def field_errors_def demo_EmailStr_def demo_contact_def)
  from e1 v1 have "e1 = [''name'']" by (simp add: post_api_contact_def)
  moreover from e2 v2 have "e2 = [''message'']" by (simp add: post_api_contact_def)
  ultimately show ?thesis using e1 e2 h1 h2 by simp
qed

subsection \<open>The round trip through the store\<close>

lemma save_try_writes:
  assumes "read_store s = Some old" and "write_fault env = Written"
  shows "save_try env contact_data (messages_file s) =
           (Inr (uuid4 env), Content (JArr (old @ [message_data env contact_data])))"
  using assms
  by (auto simp: read_store_def save_try_def split: store_file.splits json.splits)

text \<open>
  C5, as the specification states it for every prior store state, fails on a store file
  that cannot be parsed: the append returns no id, and reading the store afterwards
  yields no list. It also fails when the store cannot be written: no id is returned and
  the store holds the earlier entry only.
\<close>

theorem save_contact_message_corrupt_store_counterexample:
  "fst (save_contact_message demo_env demo_contact corrupt_server) = None \<and>
   read_store (snd (save_contact_message demo_env demo_contact corrupt_server)) = None \<and>
   fst (save_contact_message readonly_env demo_contact stored_server) = None \<and>
   read_store (snd (save_contact_message readonly_env demo_contact stored_server)) =
     Some [JStr ''earlier'']"
  by (simp add: save_contact_message_def save_try_def corrupt_server_def demo_server_def
        read_store_def readonly_env_def stored_server_def)

text \<open>
  C5, amended. For every prior store that reads as a list (no file being the empty
  list), when the write succeeds: \<^verbatim>\<open>save_contact_message\<close> returns the generated
  id, and reading the store yields the prior list, unchanged and in order, followed by
  one record whose name, email, subject and message are those of the submission, whose
  id is the id returned, and whose timestamp parses as ISO-8601 to a time not earlier
  than any time \<open>t0\<close> that the clock reading of the append is not earlier than.
\<close>

theorem save_contact_message_round_trip:
  assumes old: "read_store s = Some old"
    and written: "write_fault env = Written"
    and clock: "valid_datetime (now env)"
    and before: "datetime_le t0 (now env)"
  shows "\<exists>s' r ts t.
           save_contact_message env contact_data s = (Some (uuid4 env), s') \<and>
           read_store s' = Some (old @ [r]) \<and>
           json_get r ''id'' = Some (JStr (uuid4 env)) \<and>
           json_get r ''name'' = Some (JStr (name contact_data)) \<and>
           json_get r ''email'' = Some (JStr (email contact_data)) \<and>
           json_get r ''subject'' = Some (JStr (subject contact_data)) \<and>
           json_get r ''message'' = Some (JStr (message contact_data)) \<and>
           json_get r ''timestamp'' = Some (JStr ts) \<and>
           fromisoformat ts = Some t \<and> datetime_le t0 t"
proof -
  let ?r = "message_data env contact_data"
  let ?s' = "s\<lparr>messages_file := Content (JArr (old @ [?r]))\<rparr>"
  have "save_contact_message env contact_data s = (Some (uuid4 env), ?s')"
    by (simp add: save_contact_message_def save_try_writes [OF old written])
  moreover have "read_store ?s' = Some (old @ [?r])"
    by (simp add: read_store_def)
  moreover have "json_get ?r ''id'' = Some (JStr (uuid4 env))"
    and "json_get ?r ''name'' = Some (JStr (name contact_data))"
    and "json_get ?r ''email'' = Some (JStr (email contact_data))"
    and "json_get ?r ''subject'' = Some (JStr (subject contact_data))"
    and "json_get ?r ''message'' = Some (JStr (message contact_data))"
    and "json_get ?r ''timestamp'' = Some (JStr (isoformat (now env)))"
    by (simp_all add: json_get_def message_data_def)
  moreover have "fromisoformat (isoformat (now env)) = Some (now env)"
    using clock by (rule fromisoformat_isoformat)
  ultimately show ?thesis
    using before by blast
qed

text \<open>Appending to a store that holds one earlier entry.\<close>

theorem save_contact_message_round_trip_witness:
  "read_store stored_server = Some [JStr ''earlier''] \<and>
   write_fault demo_env = Written \<and> valid_datetime (now demo_env) \<and>
   datetime_le midnight (now demo_env) \<and>
   fst (save_contact_message demo_env demo_contact stored_server) =
     Some ''0b5e9c1e-7c1f-4d5e-9a57-3f2b8a6d4c10'' \<and>
   read_store (snd (save_contact_message demo_env demo_contact stored_server)) =
     Some [JStr ''earlier'',
           JObj [(''id'', JStr ''0b5e9c1e-7c1f-4d5e-9a57-3f2b8a6d4c10''),
                 (''name'', JStr ''Ada''),
                 (''email'', JStr ''ada@example.com''),
                 (''subject'', JStr ''Hello there''),
                 (''message'', JStr ''I would like to talk.''),
                 (''timestamp'', JStr ''2026-11-03T09:05:00.001234'')]] \<and>
   fromisoformat ''2026-11-03T09:05:00.001234'' = Some demo_now"
proof -
  have h1: "read_store stored_server = Some [JStr ''earlier'']"
    by (simp add: stored_server_def read_store_def)
  have h2: "write_fault demo_env = Written"
    by (simp add: demo_env_def)
  have h3: "valid_datetime (now demo_env)"
    by (simp add: demo_env_def demo_now_def valid_datetime_def days_in_month_def)
  have h4: "datetime_le midnight (now demo_env)"
    by (simp add: demo_env_def demo_now_def midnight_def datetime_le_def)
  have iso: "isoformat demo_now = ''2026-11-03T09:05:00.001234''"
    by code_simp
  from save_contact_message_round_trip [OF h1 h2 h3 h4, of demo_contact]
  obtain s' r where sr: "save_contact_message demo_env demo_contact stored_server =
      (Some (uuid4 demo_env), s')" "read_store s' = Some ([JStr ''earlier''] @ [r])"
    by blast
  have run: "save_contact_message demo_env demo_contact stored_server =
      (Some (uuid4 demo_env),
       stored_server\<lparr>messages_file :=
          Content (JArr ([JStr ''earlier''] @ [message_data demo_env demo_contact]))\<rparr>)"
    by (simp add: save_contact_message_def save_try_writes [OF h1 h2])
  have md: "message_data demo_env demo_contact =
     JObj [(''id'', JStr ''0b5e9c1e-7c1f-4d5e-9a57-3f2b8a6d4c10''),
                 (''name'', JStr ''Ada''),
                 (''email'', JStr ''ada@example.com''),
                 (''subject'', JStr ''Hello there''),
                 (''message'', JStr ''I would like to talk.''),
                 (''timestamp'', JStr ''2026-11-03T09:05:00.001234'')]"
    by (simp add: message_data_def demo_env_def demo_contact_def iso)
  have parse: "fromisoformat ''2026-11-03T09:05:00.001234'' = Some demo_now"
    using fromisoformat_isoformat [of demo_now] h3 by (simp add: iso demo_env_def)
  have uuid: "uuid4 demo_env = ''0b5e9c1e-7c1f-4d5e-9a57-3f2b8a6d4c10''"
    by (simp add: demo_env_def)
  from sr(1) uuid
  have ret: "fst (save_contact_message demo_env demo_contact stored_server) =
     Some ''0b5e9c1e-7c1f-4d5e-9a57-3f2b8a6d4c10''"
    by simp
  from run md
  have rd: "read_store (snd (save_contact_message demo_env demo_contact stored_server)) =
     Some [JStr ''earlier'',
           JObj [(''id'', JStr ''0b5e9c1e-7c1f-4d5e-9a57-3f2b8a6d4c10''),
                 (''name'', JStr ''Ada''),
                 (''email'', JStr ''ada@example.com''),
                 (''subject'', JStr ''Hello there''),
                 (''message'', JStr ''I would like to talk.''),
                 (''timestamp'', JStr ''2026-11-03T09:05:00.001234'')]]"
    by (simp add: read_store_def)
  show ?thesis
    by (intro conjI) (fact h1 h2 h3 h4 ret rd parse)+
qed

subsection \<open>The notifier\<close>

lemma send_try_prefix:
  "\<exists>cmds. snd (send_try env contact_data r) = r @ cmds \<and> prefix cmds (session env contact_data)"
  by (auto simp: send_try_def session_def Let_def split: option.splits)

lemma send_try_fault:
  "smtp_fault env = Some (step, e) \<Longrightarrow> fst (send_try env contact_data r) = Some (Exception e)"
  by (cases step) (simp_all add: send_try_def raises_def Let_def)

lemma distinct_session: "distinct (session env contact_data)"
  by (simp add: session_def)

lemma messages_file_send_email [simp]:
  "messages_file (snd (send_email env contact_data s)) = messages_file s"
  by (auto simp: send_email_def split: prod.splits option.splits exn.splits)

lemma messages_file_run_tasks [simp]: "messages_file (run_tasks env tasks s) = messages_file s"
  by (induction tasks arbitrary: s) simp_all

lemma save_try_smtp_fault [simp]:
  "save_try (env\<lparr>smtp_fault := x\<rparr>) contact_data f = save_try env contact_data f"
  by (simp add: save_try_def message_data_def
        split: sum.splits store_file.splits json.splits write_result.splits)

lemma save_contact_message_smtp_fault [simp]:
  "save_contact_message (env\<lparr>smtp_fault := x\<rparr>) contact_data s = save_contact_message env contact_data s"
  by (simp add: save_contact_message_def)

lemma submit_contact_smtp_fault [simp]:
  "submit_contact (env\<lparr>smtp_fault := x\<rparr>) contact s = submit_contact env contact s"
  by (simp add: submit_contact_def)

lemma post_api_contact_response:
  "fst (post_api_contact EmailStr (env\<lparr>smtp_fault := x\<rparr>) body s) =
     fst (post_api_contact EmailStr env body s) \<and>
   messages_file (snd (post_api_contact EmailStr (env\<lparr>smtp_fault := x\<rparr>) body s)) =
     messages_file (snd (post_api_contact EmailStr env body s))"
  by (auto simp: post_api_contact_def split: sum.splits prod.splits)

text \<open>
  C8. Whatever step of \<^verbatim>\<open>send_email\<close> raises (building the message, connecting,
  TLS, login, sending, quitting), \<^verbatim>\<open>send_email\<close> returns \<^verbatim>\<open>False\<close> and logs the
  fault; the commands it has sent are an initial part of one session, each at most once,
  so nothing is retried; and the response of the endpoint, and the store file, are what
  they are when no step raises.
\<close>

theorem send_email_failure_is_swallowed:
  assumes fault: "smtp_fault env = Some (step, e)"
  shows "\<exists>cmds.
           send_email env contact_data s =
             (False, s\<lparr>relay := relay s @ cmds,
                       logger := logger s @ [ERROR (''Failed to send email: '' @ e)]\<rparr>) \<and>
           prefix cmds (session env contact_data) \<and> distinct cmds \<and>
           fst (post_api_contact EmailStr env body s0) =
             fst (post_api_contact EmailStr (env\<lparr>smtp_fault := None\<rparr>) body s0) \<and>
           messages_file (snd (post_api_contact EmailStr env body s0)) =
             messages_file (snd (post_api_contact EmailStr (env\<lparr>smtp_fault := None\<rparr>) body s0))"
proof -
  obtain cmds where cmds: "snd (send_try env contact_data (relay s)) = relay s @ cmds"
    and pre: "prefix cmds (session env contact_data)"
    using send_try_prefix by blast
  from pre have "distinct cmds"
    using distinct_session [of env contact_data] by (auto simp: prefix_def)
  moreover have "send_email env contact_data s =
             (False, s\<lparr>relay := relay s @ cmds,
                       logger := logger s @ [ERROR (''Failed to send email: '' @ e)]\<rparr>)"
  proof -
    obtain x r' where st: "send_try env contact_data (relay s) = (x, r')"
      by fastforce
    with cmds send_try_fault [OF fault, of contact_data "relay s"]
    have "x = Some (Exception e)" and "r' = relay s @ cmds"
      by simp_all
    with st show ?thesis
      by (simp add: send_email_def)
  qed
  ultimately show ?thesis
    using pre post_api_contact_response [where EmailStr = EmailStr and env = env and x = None
        and body = body and s = s0]
    by auto
qed

text \<open>A relay that refuses the connection.\<close>

theorem send_email_failure_is_swallowed_witness:
  "smtp_fault relay_down_env = Some (Connect, ''Connection refused'') \<and>
   send_email relay_down_env demo_contact demo_server =
     (False, demo_server\<lparr>relay := [SMTP ''smtp.gmail.com'' 587],
                          logger := [ERROR ''Failed to send email: Connection refused'']\<rparr>) \<and>
   fst (post_api_contact demo_EmailStr relay_down_env demo_contact demo_server) =
     OK \<lparr>resp_success = True,
         resp_message = ''Thank you for your message! I'' @ [CHR 0x27] @
                        ''ll get back to you soon.'',
         resp_id = Some ''0b5e9c1e-7c1f-4d5e-9a57-3f2b8a6d4c10''\<rparr> \<and>
   fst (post_api_contact demo_EmailStr demo_env demo_contact demo_server) =
     fst (post_api_contact demo_EmailStr relay_down_env demo_contact demo_server)"
proof -
  have h: "smtp_fault relay_down_env = Some (Connect, ''Connection refused'')"
    by (simp add: relay_down_env_def)
  have up: "relay_down_env\<lparr>smtp_fault := None\<rparr> = demo_env"
    by (simp add: relay_down_env_def demo_env_def)
  have v: "ContactMessage_validate demo_EmailStr demo_contact = Inr demo_contact"
    by (simp add: ContactMessage_validate_def field_errors_def demo_EmailStr_def demo_contact_def)
  have ok: "fst (post_api_contact demo_EmailStr demo_env demo_contact demo_server) =
     OK \<lparr>resp_success = True,
         resp_message = ''Thank you for your message! I'' @ [CHR 0x27] @
                        ''ll get back to you soon.'',
         resp_id = Some ''0b5e9c1e-7c1f-4d5e-9a57-3f2b8a6d4c10''\<rparr>"
    by (simp add: post_api_contact_def v submit_contact_def save_contact_message_def save_try_def
          demo_server_def demo_env_def)
  from send_email_failure_is_swallowed
         [OF h, of demo_contact demo_server demo_EmailStr demo_contact demo_server]
  obtain cmds where
    run: "send_email relay_down_env demo_contact demo_server =
             (False, demo_server\<lparr>relay := relay demo_server @ cmds,
                logger := logger demo_server @
                  [ERROR (''Failed to send email: '' @ ''Connection refused'')]\<rparr>)"
    and same: "fst (post_api_contact demo_EmailStr relay_down_env demo_contact demo_server) =
             fst (post_api_contact demo_EmailStr (relay_down_env\<lparr>smtp_fault := None\<rparr>)
                    demo_contact demo_server)"
    by blast
  have "snd (send_try relay_down_env demo_contact (relay demo_server)) = [SMTP ''smtp.gmail.com'' 587]"
    by (simp add: send_try_def raises_def relay_down_env_def demo_server_def EMAIL_CONFIG_def Let_def)
  with run have cmds: "cmds = [SMTP ''smtp.gmail.com'' 587]"
    by (auto simp: send_email_def demo_server_def split: prod.splits option.splits exn.splits)
  from run cmds have r1: "send_email relay_down_env demo_contact demo_server =
     (False, demo_server\<lparr>relay := [SMTP ''smtp.gmail.com'' 587],
                          logger := [ERROR ''Failed to send email: Connection refused'']\<rparr>)"
    by (simp add: demo_server_def)
  from same up have r3: "fst (post_api_contact demo_EmailStr demo_env demo_contact demo_server) =
     fst (post_api_contact demo_EmailStr relay_down_env demo_contact demo_server)"
    by simp
  with ok have r2: "fst (post_api_contact demo_EmailStr relay_down_env demo_contact demo_server) =
     OK \<lparr>resp_success = True,
         resp_message = ''Thank you for your message! I'' @ [CHR 0x27] @
                        ''ll get back to you soon.'',
         resp_id = Some ''0b5e9c1e-7c1f-4d5e-9a57-3f2b8a6d4c10''\<rparr>"
    by simp
  show ?thesis
    by (intro conjI) (fact h r1 r2 r3)+
qed

end
